theory Spec2Isabelle
  imports Complex_Main "HOL-Library.Multiset"
begin

section \<open>Instruments (stock.py)\<close>

text \<open>
  Python numbers (ints and floats mixed by true division) are modelled as exact reals:
  rounding, overflow to infinity and NaN are outside the model. A stock symbol is a
  string. The two concrete classes \<open>CommonStock\<close> and \<open>PreferredStock\<close> of the
  abstract class \<open>StockABC\<close> are the two constructors of one datatype, carrying the
  arguments of their \<open>__init__\<close> in order; \<open>CommonStock\<close> stores
  \<open>fixed_dividend = None\<close>.
\<close>

datatype stock =
    CommonStock string real real
  | PreferredStock string real real real

fun symbol :: "stock \<Rightarrow> string" where
  "symbol (CommonStock smb ld pv) = smb"
| "symbol (PreferredStock smb ld fd pv) = smb"

fun last_dividend :: "stock \<Rightarrow> real" where
  "last_dividend (CommonStock smb ld pv) = ld"
| "last_dividend (PreferredStock smb ld fd pv) = ld"

fun fixed_dividend :: "stock \<Rightarrow> real option" where
  "fixed_dividend (CommonStock smb ld pv) = None"
| "fixed_dividend (PreferredStock smb ld fd pv) = Some fd"

fun par_value :: "stock \<Rightarrow> real" where
  "par_value (CommonStock smb ld pv) = pv"
| "par_value (PreferredStock smb ld fd pv) = pv"

text \<open>
  \<open>CommonStock.dividend_yield\<close> and \<open>PreferredStock.dividend_yield\<close>: the method is
  dispatched on the class, each body tests \<open>price == 0\<close> first.
\<close>

fun dividend_yield :: "stock \<Rightarrow> real \<Rightarrow> real" where
  "dividend_yield (CommonStock smb ld pv) price =
     (if price = 0 then 0 else ld / price)"
| "dividend_yield (PreferredStock smb ld fd pv) price =
     (if price = 0 then 0 else (fd * pv) / (price * 100))"

text \<open>\<open>StockABC.pe_ratio\<close>, shared by both classes.\<close>

definition pe_ratio :: "stock \<Rightarrow> real \<Rightarrow> real" where
  "pe_ratio s price =
     (let dy = dividend_yield s price
      in if dy = 0 then 0 else price / dy)"

section \<open>Trades and the trade list (trade.py)\<close>

datatype TradeIndicator = BUY | SELL

text \<open>
  A timestamp is a \<open>datetime\<close>, a point on a totally ordered time line with
  microsecond resolution: an integer number of microseconds. A \<open>timedelta\<close> is an
  integer number of microseconds too, so \<open>now - trade_timedelta\<close> is integer
  subtraction.
\<close>

record trade =
  stock :: stock
  timestamp :: int
  quantity :: real
  indicator :: TradeIndicator
  traded_price :: real

text \<open>
  The attributes of \<open>SimpleTradeList\<close>. \<open>records\<close> is the dict from symbol to the
  list of that symbol's trades; \<open>last_timestamp\<close> starts as \<open>None\<close>.
\<close>

record SimpleTradeList =
  records :: "string \<rightharpoonup> trade list"
  traded_price_count :: int
  total_traded_price :: real
  total_traded_price_log :: real
  last_timestamp :: "int option"

definition SimpleTradeList_init :: SimpleTradeList where
  "SimpleTradeList_init =
     \<lparr> records = Map.empty,
       traded_price_count = 0,
       total_traded_price = 0,
       total_traded_price_log = 0,
       last_timestamp = None \<rparr>"

text \<open>
  The exceptions \<open>record_trade\<close> can raise: the failed ordering assertion, whose
  message is formatted from the stock symbol and the trade, and the \<open>ValueError\<close>
  (math domain error) of \<open>math.log\<close> on an argument that is not positive.
\<close>

datatype error = AssertionError string trade | ValueError

definition math_log :: "real \<Rightarrow> error + real" where
  "math_log x = (if 0 < x then Inr (ln x) else Inl ValueError)"

text \<open>
  \<open>record_trade\<close> mutates the object statement by statement, so an exception leaves
  behind whatever the earlier statements did. The model returns the state with the
  error: \<open>Inl (e, s')\<close> is "raised \<open>e\<close>, the object is now \<open>s'\<close>", \<open>Inr s'\<close> is a
  normal return. \<open>records.setdefault\<close> inserts an empty list for a new symbol before
  the assertion runs; \<open>trade_list.append\<close> changes the list held in the dict.
\<close>

definition record_trade :: "SimpleTradeList \<Rightarrow> trade \<Rightarrow> (error \<times> SimpleTradeList) + SimpleTradeList" where
  "record_trade s t =
     (let stock_symbol = symbol (stock t);
          trade_list = (case records s stock_symbol of None \<Rightarrow> [] | Some l \<Rightarrow> l);
          s1 = s\<lparr>records := (records s)(stock_symbol \<mapsto> trade_list)\<rparr>
      in if \<not> (length trade_list = 0 \<or> timestamp (last trade_list) \<le> timestamp t)
         then Inl (AssertionError stock_symbol t, s1)
         else
           let s2 = s1\<lparr>records := (records s1)(stock_symbol \<mapsto> trade_list @ [t])\<rparr>;
               s3 = s2\<lparr>traded_price_count := traded_price_count s2 + 1\<rparr>;
               s4 = s3\<lparr>total_traded_price := total_traded_price s3 + traded_price t\<rparr>
           in case math_log (traded_price t) of
                Inl e \<Rightarrow> Inl (e, s4)
              | Inr lg \<Rightarrow>
                  let s5 = s4\<lparr>total_traded_price_log := total_traded_price_log s4 + lg\<rparr>
                  in Inr (s5\<lparr>last_timestamp :=
                            (case last_timestamp s5 of
                               None \<Rightarrow> Some (timestamp t)
                             | Some p \<Rightarrow> Some (max p (timestamp t)))\<rparr>))"

text \<open>
  \<open>get_last_timestamp(stock_symbol=None)\<close>: the argument is \<open>None\<close> when omitted;
  \<open>not trades\<close> holds for a missing key and for an empty list.
\<close>

definition get_last_timestamp :: "SimpleTradeList \<Rightarrow> string option \<Rightarrow> int option" where
  "get_last_timestamp s stock_symbol =
     (case stock_symbol of
        None \<Rightarrow> last_timestamp s
      | Some smb \<Rightarrow>
          (case records s smb of
             None \<Rightarrow> None
           | Some trades \<Rightarrow> if trades = [] then None else Some (timestamp (last trades))))"

definition geometric_mean :: "SimpleTradeList \<Rightarrow> real" where
  "geometric_mean s =
     (if traded_price_count s < 1 then 0
      else exp (total_traded_price_log s / real_of_int (traded_price_count s)))"

text \<open>
  The loop of \<open>volume_weighted_stock_price\<close>,
  \<open>for i in range(len(trades) - 1, -1, -1)\<close>: the argument \<open>Suc i\<close> is "the next
  index is \<open>i\<close>", \<open>0\<close> is "the range is exhausted"; the accumulator is
  \<open>(total_traded, total_quantity)\<close>. The \<open>break\<close> returns the accumulator.
\<close>

fun vwsp_loop :: "trade list \<Rightarrow> int \<Rightarrow> int \<Rightarrow> nat \<Rightarrow> real \<times> real \<Rightarrow> real \<times> real" where
  "vwsp_loop trades now trade_timedelta 0 (total_traded, total_quantity) =
     (total_traded, total_quantity)"
| "vwsp_loop trades now trade_timedelta (Suc i) (total_traded, total_quantity) =
     (if now - trade_timedelta > timestamp (trades ! i)
      then (total_traded, total_quantity)
      else vwsp_loop trades now trade_timedelta i
             (total_traded + traded_price (trades ! i) * quantity (trades ! i),
              total_quantity + quantity (trades ! i)))"

text \<open>The default of the parameter \<open>trade_timedelta\<close>: \<open>timedelta(minutes=15)\<close>.\<close>

definition default_trade_timedelta :: int where
  "default_trade_timedelta = 15 * 60 * 1000000"

text \<open>
  \<open>volume_weighted_stock_price(stock_symbol, now=None, trade_timedelta=...)\<close>.
  \<open>clock\<close> is what \<open>datetime.datetime.now()\<close> would return, read only when
  \<open>now\<close> is \<open>None\<close>; an omitted \<open>trade_timedelta\<close> is \<open>None\<close> here and takes
  the default.
\<close>

definition volume_weighted_stock_price ::
    "int \<Rightarrow> SimpleTradeList \<Rightarrow> string \<Rightarrow> int option \<Rightarrow> int option \<Rightarrow> real" where
  "volume_weighted_stock_price clock s stock_symbol now_arg trade_timedelta_arg =
     (case records s stock_symbol of
        None \<Rightarrow> 0
      | Some trades \<Rightarrow>
          if trades = [] then 0
          else
            let now = (case now_arg of None \<Rightarrow> clock | Some n \<Rightarrow> n);
                trade_timedelta =
                  (case trade_timedelta_arg of None \<Rightarrow> default_trade_timedelta | Some d \<Rightarrow> d);
                (total_traded, total_quantity) =
                  vwsp_loop trades now trade_timedelta (length trades) (0, 0)
            in if total_quantity = 0 then 0 else total_traded / total_quantity)"

section \<open>Sequences of calls\<close>

text \<open>
  A ledger is created empty and changed by \<open>record_trade\<close> only.
  \<open>record_trades\<close> runs a list of calls and stops at the first exception;
  \<open>ledger_after\<close> is the object after a list of calls whose exceptions the caller
  caught, whatever each call left behind.
\<close>

fun record_trades :: "SimpleTradeList \<Rightarrow> trade list \<Rightarrow> (error \<times> SimpleTradeList) + SimpleTradeList" where
  "record_trades s [] = Inr s"
| "record_trades s (t # ts) =
     (case record_trade s t of
        Inl e \<Rightarrow> Inl e
      | Inr s' \<Rightarrow> record_trades s' ts)"

definition state_of :: "(error \<times> SimpleTradeList) + SimpleTradeList \<Rightarrow> SimpleTradeList" where
  "state_of r = (case r of Inl (e, s) \<Rightarrow> s | Inr s \<Rightarrow> s)"

fun ledger_after :: "SimpleTradeList \<Rightarrow> trade list \<Rightarrow> SimpleTradeList" where
  "ledger_after s [] = s"
| "ledger_after s (t # ts) = ledger_after (state_of (record_trade s t)) ts"

text \<open>The ordering invariant: every symbol's list is sorted by timestamp.\<close>

definition ordered :: "SimpleTradeList \<Rightarrow> bool" where
  "ordered s = (\<forall>smb l. records s smb = Some l \<longrightarrow> sorted (map timestamp l))"

section \<open>The windowed sums as the specification words them\<close>

text \<open>
  The specification's reading of the window: filter the whole history of the symbol for
  the trades with \<open>timestamp \<ge> now - window\<close> and sum over those. This definition
  follows the specification, not the code; the code is \<open>vwsp_loop\<close>.
\<close>

definition vwsp_filter_sums :: "trade list \<Rightarrow> int \<Rightarrow> int \<Rightarrow> real \<times> real" where
  "vwsp_filter_sums trades now window =
     (let inside = filter (\<lambda>t. timestamp t \<ge> now - window) trades
      in (sum_list (map (\<lambda>t. traded_price t * quantity t) inside),
          sum_list (map quantity inside)))"

section \<open>Fixtures of the test suite\<close>

text \<open>
  \<open>Trade.__init__\<close> with its arguments in order (the indicator already coerced to the
  enumeration), and the three stocks of \<open>TestSimpleTradeListMethods.setUp\<close>.
\<close>

definition Trade :: "stock \<Rightarrow> int \<Rightarrow> real \<Rightarrow> TradeIndicator \<Rightarrow> real \<Rightarrow> trade" where
  "Trade st ts q ind p =
     \<lparr> stock = st, timestamp = ts, quantity = q, indicator = ind, traded_price = p \<rparr>"

definition stock1 :: stock where "stock1 = CommonStock ''TEST1'' 8 100"

definition stock2 :: stock where "stock2 = PreferredStock ''TEST2'' 8 2 100"

definition stock3 :: stock where "stock3 = CommonStock ''TEST3'' 0 100"

section \<open>Dividend yield and P/E ratio\<close>

text \<open>
  C7. For every instrument and every price, \<open>dividend_yield\<close> is exactly 0 at price
  0; at a nonzero price the common variant returns \<open>last_dividend / price\<close> and the
  preferred variant \<open>(fixed_dividend / 100 * par_value) / price\<close>, nothing rounded. A
  preferred stock with fixed dividend 2 and par value 100 yields 2 at price 1 and 1 at
  price 2.
\<close>

theorem dividend_yield_spec:
  "dividend_yield st 0 = 0
   \<and> (price \<noteq> 0 \<longrightarrow>
        dividend_yield (CommonStock smb ld pv) price = ld / price
      \<and> dividend_yield (PreferredStock smb ld fd pv) price = (fd / 100 * pv) / price)
   \<and> dividend_yield (PreferredStock smb' 8 2 100) 1 = 2
   \<and> dividend_yield (PreferredStock smb' 8 2 100) 2 = 1"
  by (cases st) simp_all

theorem dividend_yield_spec_witness:
  "(3::real) \<noteq> 0
   \<and> dividend_yield (CommonStock ''TEA'' 120 0) 0 = 0
   \<and> dividend_yield (CommonStock ''TEA'' 120 0) 3 = 40
   \<and> dividend_yield (PreferredStock ''GIN'' 8 2 100) 3 = 2 / 3"
  using dividend_yield_spec [where st = "CommonStock ''TEA'' 120 0" and price = 3
          and smb = "''GIN''" and ld = 8 and fd = 2 and pv = 100 and smb' = "''GIN''"]
        dividend_yield_spec [where st = "CommonStock ''TEA'' 120 0" and price = 3
          and smb = "''TEA''" and ld = 120 and fd = 2 and pv = 0 and smb' = "''GIN''"]
  by simp

text \<open>
  C8. For both variants and every price, \<open>pe_ratio\<close> is exactly 0 whenever the
  dividend yield at that price is 0, which is so at price 0 and for an instrument
  whose dividend is zero; otherwise it is \<open>price / dividend_yield(price)\<close>, unrounded.
\<close>

theorem pe_ratio_spec:
  "(dividend_yield st price = 0 \<longrightarrow> pe_ratio st price = 0)
   \<and> (dividend_yield st price \<noteq> 0 \<longrightarrow> pe_ratio st price = price / dividend_yield st price)
   \<and> pe_ratio st 0 = 0
   \<and> pe_ratio (CommonStock smb 0 pv) price = 0
   \<and> (fd * pv' = 0 \<longrightarrow> pe_ratio (PreferredStock smb ld fd pv') price = 0)"
  by (cases st) (simp_all add: pe_ratio_def)

theorem pe_ratio_spec_witness:
  "dividend_yield (CommonStock ''TEA'' 120 0) 60 \<noteq> 0
   \<and> pe_ratio (CommonStock ''TEA'' 120 0) 60 = 30
   \<and> dividend_yield (CommonStock ''TEA'' 0 100) 60 = 0
   \<and> pe_ratio (CommonStock ''TEA'' 0 100) 60 = 0
   \<and> (0::real) * 100 = 0
   \<and> pe_ratio (PreferredStock ''GIN'' 8 0 100) 60 = 0"
  using pe_ratio_spec [where st = "CommonStock ''TEA'' 120 0" and price = 60
          and smb = "''GIN''" and pv = 100 and fd = 0 and pv' = 100 and ld = 8]
        pe_ratio_spec [where st = "CommonStock ''TEA'' 0 100" and price = 60
          and smb = "''GIN''" and pv = 100 and fd = 0 and pv' = 100 and ld = 8]
  by simp

section \<open>The paths of record_trade\<close>

lemma record_trade_cases:
  "record_trade s t =
     (let smb = symbol (stock t);
          l = (case records s smb of None \<Rightarrow> [] | Some l \<Rightarrow> l)
      in if l \<noteq> [] \<and> timestamp t < timestamp (last l)
         then Inl (AssertionError smb t, s\<lparr>records := (records s)(smb \<mapsto> l)\<rparr>)
         else if traded_price t \<le> 0
         then Inl (ValueError,
                s\<lparr>records := (records s)(smb \<mapsto> l @ [t]),
                  traded_price_count := traded_price_count s + 1,
                  total_traded_price := total_traded_price s + traded_price t\<rparr>)
         else Inr (s\<lparr>records := (records s)(smb \<mapsto> l @ [t]),
                  traded_price_count := traded_price_count s + 1,
                  total_traded_price := total_traded_price s + traded_price t,
                  total_traded_price_log := total_traded_price_log s + ln (traded_price t),
                  last_timestamp := Some (case last_timestamp s of None \<Rightarrow> timestamp t
                                           | Some p \<Rightarrow> max p (timestamp t))\<rparr>))"
  by (auto simp: record_trade_def math_log_def Let_def split: option.splits)

text \<open>The rewrite rules that evaluate a run of calls on concrete trades.\<close>

lemmas run_simps = record_trade_cases state_of_def Let_def SimpleTradeList_init_def
  Trade_def stock1_def stock2_def stock3_def

text \<open>
  C3. In every ledger state, \<open>record_trade\<close> with a trade whose timestamp is less
  than the timestamp of the last trade recorded for the same symbol raises the ordering
  error, which carries the symbol and the offending trade, and the object is left
  exactly as it was: the per-symbol lists, the count, the price sum, the log-sum and
  the last-seen timestamp are unchanged. A symbol with no history (no entry, or an
  empty list) never raises the ordering error.
\<close>

theorem record_trade_out_of_order:
  "(records s (symbol (stock t)) = Some l \<and> l \<noteq> [] \<and> timestamp t < timestamp (last l)
      \<longrightarrow> record_trade s t = Inl (AssertionError (symbol (stock t)) t, s))
   \<and> (records s (symbol (stock t)) = None \<or> records s (symbol (stock t)) = Some []
      \<longrightarrow> (\<forall>e s'. record_trade s t = Inl (e, s') \<longrightarrow> e = ValueError))"
  by (auto simp: record_trade_cases Let_def map_upd_triv split: if_splits)

theorem record_trade_out_of_order_witness:
  "records (ledger_after SimpleTradeList_init [Trade stock1 5 1 BUY 2]) (symbol (stock (Trade stock1 3 1 BUY 2)))
     = Some [Trade stock1 5 1 BUY 2]
   \<and> timestamp (Trade stock1 3 1 BUY 2) < timestamp (last [Trade stock1 5 1 BUY 2])
   \<and> record_trade (ledger_after SimpleTradeList_init [Trade stock1 5 1 BUY 2]) (Trade stock1 3 1 BUY 2)
     = Inl (AssertionError ''TEST1'' (Trade stock1 3 1 BUY 2),
            ledger_after SimpleTradeList_init [Trade stock1 5 1 BUY 2])
   \<and> records SimpleTradeList_init (symbol (stock (Trade stock1 3 1 BUY 2))) = None
   \<and> record_trade SimpleTradeList_init (Trade stock1 3 1 BUY 2)
     = Inr (ledger_after SimpleTradeList_init [Trade stock1 3 1 BUY 2])"
proof -
  let ?s = "ledger_after SimpleTradeList_init [Trade stock1 5 1 BUY 2]"
  let ?t = "Trade stock1 3 1 BUY 2"
  have r: "records ?s (symbol (stock ?t)) = Some [Trade stock1 5 1 BUY 2]"
    by (simp add: run_simps)
  have lt: "timestamp ?t < timestamp (last [Trade stock1 5 1 BUY 2])"
    by (simp add: Trade_def)
  have sy: "symbol (stock ?t) = ''TEST1''" by (simp add: Trade_def stock1_def)
  have "record_trade ?s ?t = Inl (AssertionError (symbol (stock ?t)) ?t, ?s)"
    using record_trade_out_of_order [where s = ?s and t = ?t and l = "[Trade stock1 5 1 BUY 2]"]
      r lt by blast
  moreover have "records SimpleTradeList_init (symbol (stock ?t)) = None"
    by (simp add: SimpleTradeList_init_def)
  moreover have "record_trade SimpleTradeList_init ?t = Inr (ledger_after SimpleTradeList_init [?t])"
    by (simp add: run_simps)
  ultimately show ?thesis using r lt sy by (simp only: simp_thms)
qed

text \<open>
  C4. A successful \<open>record_trade\<close> appends the trade once, at the end of its symbol's
  list, leaves the lists of the other symbols alone, adds 1 to the count, the traded
  price to the price sum and its natural logarithm to the log-sum, and sets the
  last-seen timestamp to the maximum of its old value and the trade's timestamp (to the
  trade's timestamp when there was none).
\<close>

theorem record_trade_success:
  "record_trade s t = Inr s' \<Longrightarrow>
     records s' (symbol (stock t)) =
       Some ((case records s (symbol (stock t)) of None \<Rightarrow> [] | Some l \<Rightarrow> l) @ [t])
   \<and> (\<forall>smb. smb \<noteq> symbol (stock t) \<longrightarrow> records s' smb = records s smb)
   \<and> traded_price_count s' = traded_price_count s + 1
   \<and> total_traded_price s' = total_traded_price s + traded_price t
   \<and> total_traded_price_log s' = total_traded_price_log s + ln (traded_price t)
   \<and> last_timestamp s' =
       (case last_timestamp s of None \<Rightarrow> Some (timestamp t)
        | Some p \<Rightarrow> Some (max p (timestamp t)))"
  by (auto simp: record_trade_cases Let_def split: if_splits option.splits)

theorem record_trade_success_witness:
  "record_trade (ledger_after SimpleTradeList_init [Trade stock1 5 1 BUY 2]) (Trade stock1 7 3 SELL 8)
     = Inr (ledger_after SimpleTradeList_init [Trade stock1 5 1 BUY 2, Trade stock1 7 3 SELL 8])
   \<and> records (ledger_after SimpleTradeList_init [Trade stock1 5 1 BUY 2, Trade stock1 7 3 SELL 8]) ''TEST1''
     = Some [Trade stock1 5 1 BUY 2, Trade stock1 7 3 SELL 8]
   \<and> traded_price_count (ledger_after SimpleTradeList_init [Trade stock1 5 1 BUY 2, Trade stock1 7 3 SELL 8]) = 2
   \<and> total_traded_price (ledger_after SimpleTradeList_init [Trade stock1 5 1 BUY 2, Trade stock1 7 3 SELL 8]) = 10
   \<and> total_traded_price_log (ledger_after SimpleTradeList_init [Trade stock1 5 1 BUY 2, Trade stock1 7 3 SELL 8])
     = ln 2 + ln 8
   \<and> last_timestamp (ledger_after SimpleTradeList_init [Trade stock1 5 1 BUY 2, Trade stock1 7 3 SELL 8]) = Some 7"
proof -
  let ?s = "ledger_after SimpleTradeList_init [Trade stock1 5 1 BUY 2]"
  let ?t = "Trade stock1 7 3 SELL 8"
  let ?s' = "ledger_after SimpleTradeList_init [Trade stock1 5 1 BUY 2, Trade stock1 7 3 SELL 8]"
  have ok: "record_trade ?s ?t = Inr ?s'"
    by (simp add: run_simps)
  show ?thesis
    using record_trade_success [OF ok] ok
    by (simp add: run_simps)
qed

section \<open>The ordering invariant\<close>

lemma sorted_map_le_last:
  fixes f :: "'a \<Rightarrow> int"
  shows "sorted (map f l) \<Longrightarrow> x \<in> set l \<Longrightarrow> f x \<le> f (last l)"
proof (induction l)
  case Nil
  then show ?case by simp
next
  case (Cons a l)
  then show ?case by (cases "l = []") auto
qed

lemma sorted_map_snoc:
  fixes f :: "'a \<Rightarrow> int"
  assumes "sorted (map f l)" and "l = [] \<or> f (last l) \<le> f t"
  shows "sorted (map f (l @ [t]))"
proof (cases "l = []")
  case True
  then show ?thesis by simp
next
  case False
  with assms have "\<forall>x\<in>set l. f x \<le> f t"
    using sorted_map_le_last [of f l] by fastforce
  with assms(1) show ?thesis by (simp add: sorted_append)
qed

lemma ordered_record_trade:
  assumes "ordered s"
  shows "ordered (state_of (record_trade s t))"
proof -
  define l where "l = (case records s (symbol (stock t)) of None \<Rightarrow> [] | Some l \<Rightarrow> l)"
  have l: "sorted (map timestamp l)"
    using assms by (auto simp: l_def ordered_def split: option.splits)
  have snoc: "sorted (map timestamp (l @ [t]))"
    if "\<not> (l \<noteq> [] \<and> timestamp t < timestamp (last l))"
    using l that by (intro sorted_map_snoc) auto
  show ?thesis
    using assms l snoc
    unfolding ordered_def state_of_def record_trade_cases Let_def l_def [symmetric]
    by (auto split: if_splits)
qed

lemma ordered_init: "ordered SimpleTradeList_init"
  by (simp add: ordered_def SimpleTradeList_init_def)

lemma ordered_ledger_after: "ordered s \<Longrightarrow> ordered (ledger_after s ts)"
  by (induction ts arbitrary: s) (simp_all add: ordered_record_trade)

lemma record_trades_ledger_after: "record_trades s ts = Inr s' \<Longrightarrow> ledger_after s ts = s'"
  by (induction ts arbitrary: s) (auto simp: state_of_def split: sum.splits)

text \<open>
  C5. In every ledger reached from the empty one by successful \<open>record_trade\<close> calls,
  every symbol's list is sorted by non-decreasing timestamp, and \<open>record_trade\<close>
  preserves this invariant, on a normal return and in the object a raised exception
  leaves behind alike. The timestamps of different symbols are not compared with each
  other.
\<close>

theorem ordering_invariant:
  "(record_trades SimpleTradeList_init ts = Inr s \<longrightarrow> ordered s)
   \<and> (ordered s0 \<and> record_trade s0 t = Inr s1 \<longrightarrow> ordered s1)
   \<and> (ordered s0 \<longrightarrow> ordered (state_of (record_trade s0 t)))"
proof (intro conjI impI)
  assume "ordered s0"
  then show "ordered (state_of (record_trade s0 t))" by (rule ordered_record_trade)
next
  assume "record_trades SimpleTradeList_init ts = Inr s"
  then have "ledger_after SimpleTradeList_init ts = s" by (rule record_trades_ledger_after)
  then show "ordered s" using ordered_ledger_after [OF ordered_init, of ts] by simp
next
  assume "ordered s0 \<and> record_trade s0 t = Inr s1"
  then show "ordered s1" using ordered_record_trade [of s0 t] by (simp add: state_of_def)
qed

theorem ordering_invariant_witness:
  "(\<exists>s. record_trades SimpleTradeList_init
           [Trade stock1 5 1 BUY 2, Trade stock2 3 1 BUY 4, Trade stock1 7 1 SELL 2,
            Trade stock2 3 2 SELL 4] = Inr s
        \<and> ordered s)
   \<and> ordered (ledger_after SimpleTradeList_init [Trade stock1 5 1 BUY 2])
   \<and> record_trade (ledger_after SimpleTradeList_init [Trade stock1 5 1 BUY 2]) (Trade stock1 5 1 SELL 3)
       = Inr (ledger_after SimpleTradeList_init [Trade stock1 5 1 BUY 2, Trade stock1 5 1 SELL 3])
   \<and> ordered (ledger_after SimpleTradeList_init [Trade stock1 5 1 BUY 2, Trade stock1 5 1 SELL 3])"
proof -
  let ?ts = "[Trade stock1 5 1 BUY 2, Trade stock2 3 1 BUY 4, Trade stock1 7 1 SELL 2,
            Trade stock2 3 2 SELL 4]"
  let ?s0 = "ledger_after SimpleTradeList_init [Trade stock1 5 1 BUY 2]"
  let ?s1 = "ledger_after SimpleTradeList_init [Trade stock1 5 1 BUY 2, Trade stock1 5 1 SELL 3]"
  have "\<exists>s. record_trades SimpleTradeList_init ?ts = Inr s"
    by (simp add: run_simps)
  then obtain s where s: "record_trades SimpleTradeList_init ?ts = Inr s" ..
  have a: "record_trades SimpleTradeList_init [Trade stock1 5 1 BUY 2] = Inr ?s0"
    by (simp add: run_simps)
  have b: "record_trade ?s0 (Trade stock1 5 1 SELL 3) = Inr ?s1"
    by (simp add: run_simps)
  have "ordered s"
    using ordering_invariant [where ts = ?ts and s = s] s by blast
  moreover have o0: "ordered ?s0"
    using ordering_invariant [where ts = "[Trade stock1 5 1 BUY 2]" and s = ?s0] a by blast
  moreover have "ordered ?s1"
    using ordering_invariant [where ?s0.0 = ?s0 and t = "Trade stock1 5 1 SELL 3" and ?s1.0 = ?s1] o0 b
    by blast
  ultimately show ?thesis using s b by blast
qed

section \<open>The backward scan against the filter\<close>

lemma filter_window_empty:
  assumes "sorted (map timestamp (l @ [t]))" and "now - w > timestamp t"
  shows "filter (\<lambda>t. timestamp t \<ge> now - w) (l @ [t]) = []"
proof -
  from assms(1) have "\<forall>x\<in>set l. timestamp x \<le> timestamp t"
    by (simp add: sorted_append)
  with assms(2) show ?thesis by (auto simp: filter_empty_conv)
qed

lemma vwsp_loop_filter:
  assumes "k \<le> length trades" and "sorted (map timestamp (take k trades))"
  shows "vwsp_loop trades now w k (a, b) =
           (a + fst (vwsp_filter_sums (take k trades) now w),
            b + snd (vwsp_filter_sums (take k trades) now w))"
  using assms
proof (induction k arbitrary: a b)
  case 0
  then show ?case by (simp add: vwsp_filter_sums_def)
next
  case (Suc i)
  then have i: "i < length trades" by simp
  then have tk: "take (Suc i) trades = take i trades @ [trades ! i]"
    by (simp add: take_Suc_conv_app_nth)
  with Suc.prems(2) have srt: "sorted (map timestamp (take i trades @ [trades ! i]))" by simp
  then have srt': "sorted (map timestamp (take i trades))" by (simp add: sorted_append)
  show ?case
  proof (cases "now - w > timestamp (trades ! i)")
    case True
    then show ?thesis
      using filter_window_empty [OF srt True]
      by (simp add: vwsp_filter_sums_def tk del: filter_append)
  next
    case False
    then show ?thesis
      using Suc.IH [OF _ srt'] i
      by (simp add: vwsp_filter_sums_def tk Let_def)
  qed
qed

text \<open>
  C6. On a list of trades sorted by non-decreasing timestamp, the backward scan of
  \<open>volume_weighted_stock_price\<close>, which stops at the first trade older than
  \<open>now - window\<close>, accumulates the same two sums as filtering the whole list for the
  trades with \<open>timestamp \<ge> now - window\<close>.
\<close>

theorem vwsp_scan_equals_filter:
  "sorted (map timestamp trades) \<Longrightarrow>
     vwsp_loop trades now window (length trades) (0, 0) = vwsp_filter_sums trades now window"
  using vwsp_loop_filter [of "length trades" trades now window 0 0] by simp

theorem vwsp_scan_equals_filter_witness:
  "sorted (map timestamp [Trade stock1 0 1 BUY 10, Trade stock1 600000000 1 BUY 20,
                          Trade stock1 900000000 1 BUY 30])
   \<and> vwsp_loop [Trade stock1 0 1 BUY 10, Trade stock1 600000000 1 BUY 20,
                 Trade stock1 900000000 1 BUY 30] 1200000000 900000000 3 (0, 0) = (50, 2)
   \<and> vwsp_filter_sums [Trade stock1 0 1 BUY 10, Trade stock1 600000000 1 BUY 20,
                 Trade stock1 900000000 1 BUY 30] 1200000000 900000000 = (50, 2)"
proof -
  let ?l = "[Trade stock1 0 1 BUY 10, Trade stock1 600000000 1 BUY 20,
             Trade stock1 900000000 1 BUY 30]"
  have srt: "sorted (map timestamp ?l)" by (simp add: Trade_def)
  have f: "vwsp_filter_sums ?l 1200000000 900000000 = (50, 2)"
    by (simp add: vwsp_filter_sums_def Trade_def)
  have len: "3 = length ?l" by simp
  have "vwsp_loop ?l 1200000000 900000000 (length ?l) (0, 0) = (50, 2)"
    using vwsp_scan_equals_filter [OF srt, of 1200000000 900000000] f by (simp only:)
  then have "vwsp_loop ?l 1200000000 900000000 3 (0, 0) = (50, 2)"
    by (simp only: len)
  with srt f show ?thesis by (simp only: simp_thms)
qed

section \<open>The aggregates of a run\<close>

lemma record_trades_snoc_free:
  "record_trades s (t # ts) = Inr s' \<Longrightarrow> \<exists>s1. record_trade s t = Inr s1 \<and> record_trades s1 ts = Inr s'"
  by (auto split: sum.splits)

lemma record_trade_Inr_price: "record_trade s t = Inr s' \<Longrightarrow> 0 < traded_price t"
  by (auto simp: record_trade_cases Let_def split: if_splits)

lemma record_trades_records:
  "record_trades s ts = Inr s' \<Longrightarrow>
     records s' smb =
       (if filter (\<lambda>t. symbol (stock t) = smb) ts = [] then records s smb
        else Some ((case records s smb of None \<Rightarrow> [] | Some l \<Rightarrow> l)
                     @ filter (\<lambda>t. symbol (stock t) = smb) ts))"
proof (induction ts arbitrary: s)
  case Nil
  then show ?case by simp
next
  case (Cons t ts)
  then obtain s1 where s1: "record_trade s t = Inr s1" and rest: "record_trades s1 ts = Inr s'"
    using record_trades_snoc_free by blast
  have r1: "records s1 smb =
      (if symbol (stock t) = smb
       then Some ((case records s smb of None \<Rightarrow> [] | Some l \<Rightarrow> l) @ [t])
       else records s smb)"
    using s1 by (auto simp: record_trade_cases Let_def split: if_splits)
  show ?case
    using Cons.IH [OF rest] r1 by (auto split: option.splits)
qed

lemma record_trades_aggregates:
  "record_trades s ts = Inr s' \<Longrightarrow>
     traded_price_count s' = traded_price_count s + int (length ts)
   \<and> total_traded_price s' = total_traded_price s + sum_list (map traded_price ts)
   \<and> total_traded_price_log s' = total_traded_price_log s + sum_list (map (\<lambda>t. ln (traded_price t)) ts)
   \<and> (\<forall>t\<in>set ts. 0 < traded_price t)"
proof (induction ts arbitrary: s)
  case Nil
  then show ?case by simp
next
  case (Cons t ts)
  then obtain s1 where s1: "record_trade s t = Inr s1" and rest: "record_trades s1 ts = Inr s'"
    using record_trades_snoc_free by blast
  have "traded_price_count s1 = traded_price_count s + 1"
       "total_traded_price s1 = total_traded_price s + traded_price t"
       "total_traded_price_log s1 = total_traded_price_log s + ln (traded_price t)"
       "0 < traded_price t"
    using s1 by (auto simp: record_trade_cases Let_def split: if_splits)
  then show ?case
    using Cons.IH [OF rest] by simp
qed

lemma record_trades_last_timestamp:
  "record_trades s ts = Inr s' \<Longrightarrow> ts \<noteq> [] \<Longrightarrow>
     last_timestamp s' = Some (Max (timestamp ` set ts \<union> set_option (last_timestamp s)))"
proof (induction ts arbitrary: s)
  case Nil
  then show ?case by simp
next
  case (Cons t ts)
  then obtain s1 where s1: "record_trade s t = Inr s1" and rest: "record_trades s1 ts = Inr s'"
    using record_trades_snoc_free by blast
  have l1: "last_timestamp s1 =
      Some (case last_timestamp s of None \<Rightarrow> timestamp t | Some p \<Rightarrow> max p (timestamp t))"
    using s1 by (auto simp: record_trade_cases Let_def split: if_splits)
  show ?case
  proof (cases "ts = []")
    case True
    with rest l1 show ?thesis by (auto split: option.splits simp: max.commute)
  next
    case False
    have fin: "finite (timestamp ` set ts)" and ne: "timestamp ` set ts \<noteq> {}"
      using False by auto
    show ?thesis
      using Cons.IH [OF rest False] l1 fin ne
      by (auto split: option.splits simp: max.commute max.left_commute)
  qed
qed

section \<open>Geometric mean\<close>

lemma ln_prod_list:
  "\<forall>x\<in>set xs. (0::real) < x \<Longrightarrow> 0 < prod_list xs \<and> ln (prod_list xs) = sum_list (map ln xs)"
  by (induction xs) (auto simp: ln_mult)

lemma exp_mean_ln_root:
  assumes "\<forall>x\<in>set xs. (0::real) < x" and "xs \<noteq> []"
  shows "exp (sum_list (map ln xs) / real (length xs)) = root (length xs) (prod_list xs)"
proof -
  have n: "0 < length xs" using assms(2) by simp
  have p: "0 < prod_list xs" and l: "ln (prod_list xs) = sum_list (map ln xs)"
    using ln_prod_list [OF assms(1)] by simp_all
  have "root (length xs) (prod_list xs) = prod_list xs powr (1 / real (length xs))"
    using n p by (simp add: root_powr_inverse)
  also have "\<dots> = exp (ln (prod_list xs) / real (length xs))"
    using p by (simp add: powr_def)
  finally show ?thesis by (simp add: l)
qed

lemma geometric_mean_record_trades:
  assumes "record_trades SimpleTradeList_init ts = Inr s"
  shows "geometric_mean s =
           (if ts = [] then 0 else root (length ts) (prod_list (map traded_price ts)))"
proof -
  from record_trades_aggregates [OF assms]
  have c: "traded_price_count s = int (length ts)"
    and lg: "total_traded_price_log s = sum_list (map (\<lambda>t. ln (traded_price t)) ts)"
    and pos: "\<forall>t\<in>set ts. 0 < traded_price t"
    by (simp_all add: SimpleTradeList_init_def)
  show ?thesis
  proof (cases "ts = []")
    case True
    with c show ?thesis by (simp add: geometric_mean_def)
  next
    case False
    then have "\<not> traded_price_count s < 1" using c by (cases ts) simp_all
    moreover have "exp (sum_list (map ln (map traded_price ts)) / real (length (map traded_price ts)))
        = root (length (map traded_price ts)) (prod_list (map traded_price ts))"
      using pos False by (intro exp_mean_ln_root) auto
    ultimately show ?thesis
      using False by (simp add: geometric_mean_def c lg comp_def)
  qed
qed

text \<open>
  C1. \<open>geometric_mean\<close> returns 0 when the count is below 1, as on the empty ledger,
  and \<open>exp (log-sum / count)\<close> otherwise. On a ledger built from the empty one by
  successfully recording the trades \<open>ts\<close>, of whatever symbols, that is the
  \<open>length ts\<close>-th root of the product of their traded prices; two such ledgers whose
  traded prices agree as multisets have the same geometric mean. Prices 2 and 8 give 4;
  prices 4, 1 and 1/32 give 1/2.
\<close>

theorem geometric_mean_spec:
  "geometric_mean s =
     (if traded_price_count s < 1 then 0
      else exp (total_traded_price_log s / real_of_int (traded_price_count s)))
   \<and> geometric_mean SimpleTradeList_init = 0
   \<and> (record_trades SimpleTradeList_init ts = Inr s' \<longrightarrow>
        geometric_mean s' =
          (if ts = [] then 0 else root (length ts) (prod_list (map traded_price ts))))
   \<and> (record_trades SimpleTradeList_init ts = Inr s'
        \<and> record_trades SimpleTradeList_init us = Inr s''
        \<and> mset (map traded_price ts) = mset (map traded_price us) \<longrightarrow>
        geometric_mean s' = geometric_mean s'')"
proof (intro conjI impI)
  show "geometric_mean s =
     (if traded_price_count s < 1 then 0
      else exp (total_traded_price_log s / real_of_int (traded_price_count s)))"
    by (simp add: geometric_mean_def)
  show "geometric_mean SimpleTradeList_init = 0"
    by (simp add: geometric_mean_def SimpleTradeList_init_def)
  show "geometric_mean s' =
          (if ts = [] then 0 else root (length ts) (prod_list (map traded_price ts)))"
    if "record_trades SimpleTradeList_init ts = Inr s'"
    using that by (rule geometric_mean_record_trades)
  show "geometric_mean s' = geometric_mean s''"
    if h: "record_trades SimpleTradeList_init ts = Inr s'
        \<and> record_trades SimpleTradeList_init us = Inr s''
        \<and> mset (map traded_price ts) = mset (map traded_price us)"
  proof -
    from h have m: "mset (map traded_price ts) = mset (map traded_price us)" by simp
    then have "length (map traded_price ts) = length (map traded_price us)"
      by (rule mset_eq_length)
    then have len: "length ts = length us" by simp
    have "prod_mset (mset (map traded_price ts)) = prod_mset (mset (map traded_price us))"
      using m by simp
    then have pr: "prod_list (map traded_price ts) = prod_list (map traded_price us)"
      by (simp only: prod_mset_prod_list)
    show ?thesis
      using h geometric_mean_record_trades [of ts s'] geometric_mean_record_trades [of us s'']
        len pr by auto
  qed
qed

theorem geometric_mean_spec_witness:
  "(\<exists>s. record_trades SimpleTradeList_init
          [Trade stock1 (-120000000) 1 BUY 2, Trade stock2 (-60000000) 1 BUY 8] = Inr s
        \<and> geometric_mean s = 4)
   \<and> (\<exists>s. record_trades SimpleTradeList_init
          [Trade stock1 (-180000000) 1 BUY 4, Trade stock2 (-120000000) 1 BUY 1,
           Trade stock3 (-60000000) 1 BUY (1 / 32)] = Inr s
        \<and> geometric_mean s = 1 / 2)"
proof (intro conjI)
  let ?ts = "[Trade stock1 (-120000000) 1 BUY 2, Trade stock2 (-60000000) 1 BUY 8]"
  have "\<exists>s. record_trades SimpleTradeList_init ?ts = Inr s"
    by (simp add: run_simps)
  then obtain s where s: "record_trades SimpleTradeList_init ?ts = Inr s" ..
  have "root (length ?ts) (prod_list (map traded_price ?ts)) = 4"
    by (rule real_root_pos_unique) (simp_all add: Trade_def)
  moreover have "geometric_mean s = root (length ?ts) (prod_list (map traded_price ?ts))"
    using s geometric_mean_spec [where ts = ?ts and s' = s,
      THEN conjunct2, THEN conjunct2, THEN conjunct1]
    by simp
  ultimately have "geometric_mean s = 4" by (simp only:)
  with s show "\<exists>s. record_trades SimpleTradeList_init ?ts = Inr s \<and> geometric_mean s = 4"
    by blast
next
  let ?ts = "[Trade stock1 (-180000000) 1 BUY 4, Trade stock2 (-120000000) 1 BUY 1,
           Trade stock3 (-60000000) 1 BUY (1 / 32)]"
  have "\<exists>s. record_trades SimpleTradeList_init ?ts = Inr s"
    by (simp add: run_simps)
  then obtain s where s: "record_trades SimpleTradeList_init ?ts = Inr s" ..
  have "root (length ?ts) (prod_list (map traded_price ?ts)) = 1 / 2"
    by (rule real_root_pos_unique) (simp_all add: Trade_def power3_eq_cube)
  moreover have "geometric_mean s = root (length ?ts) (prod_list (map traded_price ?ts))"
    using s geometric_mean_spec [where ts = ?ts and s' = s,
      THEN conjunct2, THEN conjunct2, THEN conjunct1]
    by simp
  ultimately have "geometric_mean s = 1 / 2" by (simp only:)
  with s show "\<exists>s. record_trades SimpleTradeList_init ?ts = Inr s \<and> geometric_mean s = 1 / 2"
    by blast
qed

section \<open>Volume weighted stock price\<close>

lemma vwsp_ordered:
  assumes "ordered s"
  shows "volume_weighted_stock_price clock s smb now_arg window_arg =
     (case records s smb of
        None \<Rightarrow> 0
      | Some trades \<Rightarrow>
          if trades = [] then 0
          else
            let now = (case now_arg of None \<Rightarrow> clock | Some n \<Rightarrow> n);
                window = (case window_arg of None \<Rightarrow> default_trade_timedelta | Some d \<Rightarrow> d);
                acc = vwsp_filter_sums trades now window
            in if snd acc = 0 then 0 else fst acc / snd acc)"
proof (cases "records s smb")
  case None
  then show ?thesis by (simp add: volume_weighted_stock_price_def)
next
  case (Some trades)
  with assms have "sorted (map timestamp trades)" by (simp add: ordered_def)
  then have "vwsp_loop trades now w (length trades) (0, 0) = vwsp_filter_sums trades now w"
    for now w
    using vwsp_loop_filter [of "length trades" trades now w 0 0] by simp
  then show ?thesis
    using Some by (simp add: volume_weighted_stock_price_def Let_def split: prod.splits)
qed

text \<open>
  C2. For every ledger (the object after any list of \<open>record_trade\<close> calls on the
  empty ledger, failed calls included) and every symbol,
  \<open>volume_weighted_stock_price\<close> returns 0 when the symbol has no recorded trades;
  otherwise it returns the sum of \<open>traded_price * quantity\<close> divided by the sum of
  \<open>quantity\<close>, both taken over exactly those trades of the symbol whose timestamp is
  at least \<open>now - window\<close>, and 0 when that sum of quantities is 0. \<open>now\<close> is the
  clock when not given and the window is 15 minutes when not given.
\<close>

theorem volume_weighted_stock_price_spec:
  assumes "s = ledger_after SimpleTradeList_init calls"
    and "now = (case now_arg of None \<Rightarrow> clock | Some n \<Rightarrow> n)"
    and "window = (case window_arg of None \<Rightarrow> 15 * 60 * 1000000 | Some d \<Rightarrow> d)"
    and "inside = filter (\<lambda>t. timestamp t \<ge> now - window)
                    (case records s smb of None \<Rightarrow> [] | Some trades \<Rightarrow> trades)"
  shows "volume_weighted_stock_price clock s smb now_arg window_arg =
     (if records s smb = None \<or> records s smb = Some [] then 0
      else if sum_list (map quantity inside) = 0 then 0
      else sum_list (map (\<lambda>t. traded_price t * quantity t) inside)
             / sum_list (map quantity inside))"
proof -
  have "ordered s"
    unfolding assms(1) by (rule ordered_ledger_after [OF ordered_init])
  then show ?thesis
    by (auto simp: vwsp_ordered assms(2-4) vwsp_filter_sums_def Let_def
          default_trade_timedelta_def split: option.splits)
qed

theorem volume_weighted_stock_price_spec_witness:
  "volume_weighted_stock_price 0
     (ledger_after SimpleTradeList_init
        [Trade stock1 0 1 BUY 10, Trade stock1 600000000 1 BUY 20,
         Trade stock1 900000000 1 BUY 30])
     ''TEST1'' (Some 1200000000) None = 25
   \<and> volume_weighted_stock_price 1200000000
     (ledger_after SimpleTradeList_init
        [Trade stock1 1020000000 2 BUY 2, Trade stock1 1080000000 3 BUY 5,
         Trade stock1 1140000000 4 BUY 6])
     ''TEST1'' None (Some 900000000) = 43 / 9
   \<and> volume_weighted_stock_price 1200000000
     (ledger_after SimpleTradeList_init [Trade stock1 0 1 BUY 10])
     ''TEST2'' None None = 0
   \<and> volume_weighted_stock_price 1200000000
     (ledger_after SimpleTradeList_init [Trade stock1 0 1 BUY 10])
     ''TEST1'' None None = 0"
  using
    volume_weighted_stock_price_spec [OF refl refl refl refl,
      where calls = "[Trade stock1 0 1 BUY 10, Trade stock1 600000000 1 BUY 20,
         Trade stock1 900000000 1 BUY 30]"
      and clock = 0 and smb = "''TEST1''" and now_arg = "Some 1200000000" and window_arg = None]
    volume_weighted_stock_price_spec [OF refl refl refl refl,
      where calls = "[Trade stock1 1020000000 2 BUY 2, Trade stock1 1080000000 3 BUY 5,
         Trade stock1 1140000000 4 BUY 6]"
      and clock = 1200000000 and smb = "''TEST1''" and now_arg = None
      and window_arg = "Some 900000000"]
    volume_weighted_stock_price_spec [OF refl refl refl refl,
      where calls = "[Trade stock1 0 1 BUY 10]"
      and clock = 1200000000 and smb = "''TEST2''" and now_arg = None and window_arg = None]
    volume_weighted_stock_price_spec [OF refl refl refl refl,
      where calls = "[Trade stock1 0 1 BUY 10]"
      and clock = 1200000000 and smb = "''TEST1''" and now_arg = None and window_arg = None]
  by (simp add: run_simps)

section \<open>Last timestamps\<close>

text \<open>
  C9. In every ledger state, \<open>get_last_timestamp\<close> without a symbol returns the
  global last-seen timestamp, which is \<open>None\<close> on the empty ledger; with a symbol it
  returns the timestamp of the last trade in that symbol's list, and \<open>None\<close> when the
  symbol is unknown or its list is empty. The function has no error result. On a
  ledger built by successfully recording the trades \<open>ts\<close>, the global value is the
  greatest timestamp of \<open>ts\<close> and the value for a symbol is the timestamp of the last
  trade of \<open>ts\<close> with that symbol.
\<close>

theorem get_last_timestamp_spec:
  "get_last_timestamp s None = last_timestamp s
   \<and> get_last_timestamp SimpleTradeList_init None = None
   \<and> (records s smb = Some l \<and> l \<noteq> [] \<longrightarrow>
        get_last_timestamp s (Some smb) = Some (timestamp (last l)))
   \<and> (records s smb = None \<or> records s smb = Some [] \<longrightarrow>
        get_last_timestamp s (Some smb) = None)
   \<and> (record_trades SimpleTradeList_init ts = Inr s' \<longrightarrow>
        get_last_timestamp s' None =
          (if ts = [] then None else Some (Max (timestamp ` set ts)))
      \<and> get_last_timestamp s' (Some smb) =
          (let own = filter (\<lambda>t. symbol (stock t) = smb) ts
           in if own = [] then None else Some (timestamp (last own))))"
proof (intro conjI impI)
  assume run: "record_trades SimpleTradeList_init ts = Inr s'"
  show "get_last_timestamp s' None =
          (if ts = [] then None else Some (Max (timestamp ` set ts)))"
  proof (cases "ts = []")
    case True
    with run show ?thesis by (auto simp: get_last_timestamp_def SimpleTradeList_init_def)
  next
    case False
    then show ?thesis
      using record_trades_last_timestamp [OF run False]
      by (simp add: get_last_timestamp_def SimpleTradeList_init_def)
  qed
  show "get_last_timestamp s' (Some smb) =
          (let own = filter (\<lambda>t. symbol (stock t) = smb) ts
           in if own = [] then None else Some (timestamp (last own)))"
    using record_trades_records [OF run, of smb]
    by (simp add: get_last_timestamp_def SimpleTradeList_init_def Let_def)
qed (auto simp: get_last_timestamp_def SimpleTradeList_init_def)

theorem get_last_timestamp_spec_witness:
  "(\<exists>s. record_trades SimpleTradeList_init
          [Trade stock1 5 1 BUY 2, Trade stock2 9 1 BUY 4, Trade stock1 7 1 SELL 2] = Inr s
        \<and> records s ''TEST1'' = Some [Trade stock1 5 1 BUY 2, Trade stock1 7 1 SELL 2]
        \<and> records s ''TEST3'' = None
        \<and> get_last_timestamp s None = Some 9
        \<and> get_last_timestamp s (Some ''TEST1'') = Some 7
        \<and> get_last_timestamp s (Some ''TEST2'') = Some 9
        \<and> get_last_timestamp s (Some ''TEST3'') = None)"
proof -
  let ?ts = "[Trade stock1 5 1 BUY 2, Trade stock2 9 1 BUY 4, Trade stock1 7 1 SELL 2]"
  let ?s = "ledger_after SimpleTradeList_init ?ts"
  have run: "record_trades SimpleTradeList_init ?ts = Inr ?s"
    by (simp add: run_simps)
  have r1: "records ?s ''TEST1'' = Some [Trade stock1 5 1 BUY 2, Trade stock1 7 1 SELL 2]"
    and r3: "records ?s ''TEST3'' = None"
    by (simp_all add: run_simps)
  have a: "get_last_timestamp ?s None = Some 9"
    using get_last_timestamp_spec [where ts = ?ts and s' = ?s and smb = "''TEST1''",
      THEN conjunct2, THEN conjunct2, THEN conjunct2, THEN conjunct2, rule_format, OF run]
    by (simp add: Trade_def)
  have b: "get_last_timestamp ?s (Some ''TEST1'') = Some 7"
    using get_last_timestamp_spec [where s = ?s and smb = "''TEST1''"
      and l = "[Trade stock1 5 1 BUY 2, Trade stock1 7 1 SELL 2]",
      THEN conjunct2, THEN conjunct2, THEN conjunct1] r1
    by (simp add: Trade_def)
  have c: "get_last_timestamp ?s (Some ''TEST2'') = Some 9"
    using get_last_timestamp_spec [where ts = ?ts and s' = ?s and smb = "''TEST2''",
      THEN conjunct2, THEN conjunct2, THEN conjunct2, THEN conjunct2, rule_format, OF run]
    by (simp add: Trade_def stock1_def stock2_def)
  have d: "get_last_timestamp ?s (Some ''TEST3'') = None"
    using get_last_timestamp_spec [where s = ?s and smb = "''TEST3''",
      THEN conjunct2, THEN conjunct2, THEN conjunct2, THEN conjunct1] r3
    by blast
  show ?thesis
    using run r1 r3 a b c d by blast
qed

section \<open>A traded price that is not positive\<close>

text \<open>
  C10, as amended. In every ledger state, \<open>record_trade\<close> with a trade whose traded
  price is not positive and whose timestamp passes the ordering check (the symbol has no
  trades yet, or its last trade is not later than the new one) raises the
  \<open>ValueError\<close> of the logarithm after the trade has been appended to its symbol's list
  and the count and the price sum have been updated. The log-sum and the last-seen
  timestamp keep their old values, so the object left behind differs from the one before
  the call and its aggregates no longer describe the recorded trades.
\<close>

theorem record_trade_nonpositive_price:
  assumes "traded_price t \<le> 0"
    and "trade_list = (case records s (symbol (stock t)) of None \<Rightarrow> [] | Some l \<Rightarrow> l)"
    and "trade_list = [] \<or> timestamp (last trade_list) \<le> timestamp t"
  shows "\<exists>s'. record_trade s t = Inl (ValueError, s')
     \<and> records s' = (records s)(symbol (stock t) \<mapsto> trade_list @ [t])
     \<and> traded_price_count s' = traded_price_count s + 1
     \<and> total_traded_price s' = total_traded_price s + traded_price t
     \<and> total_traded_price_log s' = total_traded_price_log s
     \<and> last_timestamp s' = last_timestamp s
     \<and> s' \<noteq> s"
proof -
  let ?s' = "s\<lparr>records := (records s)(symbol (stock t) \<mapsto> trade_list @ [t]),
                traded_price_count := traded_price_count s + 1,
                total_traded_price := total_traded_price s + traded_price t\<rparr>"
  have "record_trade s t = Inl (ValueError, ?s')"
    using assms by (auto simp: record_trade_cases Let_def)
  moreover have "?s' \<noteq> s"
  proof
    assume "?s' = s"
    then have "traded_price_count ?s' = traded_price_count s" by (rule arg_cong)
    then show False by simp
  qed
  ultimately show ?thesis by simp
qed

theorem record_trade_nonpositive_price_witness:
  "traded_price (Trade stock1 3 1 BUY 0) \<le> 0
   \<and> records SimpleTradeList_init (symbol (stock (Trade stock1 3 1 BUY 0))) = None
   \<and> record_trade SimpleTradeList_init (Trade stock1 3 1 BUY 0)
      = Inl (ValueError,
          \<lparr> records = [''TEST1'' \<mapsto> [Trade stock1 3 1 BUY 0]],
            traded_price_count = 1,
            total_traded_price = 0,
            total_traded_price_log = 0,
            last_timestamp = None \<rparr>)
   \<and> geometric_mean (state_of (record_trade SimpleTradeList_init (Trade stock1 3 1 BUY 0))) = 1"
proof -
  let ?t = "Trade stock1 3 1 BUY 0"
  have p: "traded_price ?t \<le> 0" by (simp add: Trade_def)
  have n: "records SimpleTradeList_init (symbol (stock ?t)) = None"
    by (simp add: SimpleTradeList_init_def)
  have "\<exists>s'. record_trade SimpleTradeList_init ?t = Inl (ValueError, s')
     \<and> records s' = (records SimpleTradeList_init)(symbol (stock ?t) \<mapsto> [] @ [?t])
     \<and> traded_price_count s' = traded_price_count SimpleTradeList_init + 1
     \<and> total_traded_price s' = total_traded_price SimpleTradeList_init + traded_price ?t
     \<and> total_traded_price_log s' = total_traded_price_log SimpleTradeList_init
     \<and> last_timestamp s' = last_timestamp SimpleTradeList_init
     \<and> s' \<noteq> SimpleTradeList_init"
    by (rule record_trade_nonpositive_price [OF p]) (simp_all add: n)
  then obtain s' where s': "record_trade SimpleTradeList_init ?t = Inl (ValueError, s')"
    and r: "records s' = [''TEST1'' \<mapsto> [?t]]"
    and c: "traded_price_count s' = 1" and tt: "total_traded_price s' = 0"
    and lg: "total_traded_price_log s' = 0" and lt: "last_timestamp s' = None"
    by (auto simp: SimpleTradeList_init_def Trade_def stock1_def)
  have eq: "s' = \<lparr> records = [''TEST1'' \<mapsto> [?t]], traded_price_count = 1,
            total_traded_price = 0, total_traded_price_log = 0, last_timestamp = None \<rparr>"
    using r c tt lg lt by (cases s') simp
  have "geometric_mean (state_of (record_trade SimpleTradeList_init ?t)) = 1"
    by (simp add: s' state_of_def geometric_mean_def c lg)
  with p n s' eq show ?thesis by (simp only: simp_thms)
qed

text \<open>
  Without the condition on the timestamp the statement fails: a trade with price 0 that
  is out of order for its symbol raises the ordering error, not the \<open>ValueError\<close>, and
  nothing is appended, although the ledger satisfies the ordering invariant.
\<close>

theorem record_trade_nonpositive_price_counterexample:
  "ordered (ledger_after SimpleTradeList_init [Trade stock1 5 1 BUY 2])
   \<and> traded_price (Trade stock1 3 1 BUY 0) \<le> 0
   \<and> record_trade (ledger_after SimpleTradeList_init [Trade stock1 5 1 BUY 2])
        (Trade stock1 3 1 BUY 0)
      = Inl (AssertionError ''TEST1'' (Trade stock1 3 1 BUY 0),
             ledger_after SimpleTradeList_init [Trade stock1 5 1 BUY 2])"
proof (intro conjI)
  show "ordered (ledger_after SimpleTradeList_init [Trade stock1 5 1 BUY 2])"
    by (rule ordered_ledger_after [OF ordered_init])
qed (simp_all add: run_simps map_upd_triv)

end
